theory Spec2Isabelle
  imports Complex_Main
begin

section \<open>Values, exceptions and observable events\<close>

text \<open>
  \<^verbatim>\<open>CustomSession.py\<close> wraps a \<^verbatim>\<open>requests\<close> session.  The wrapper itself is three
  methods; everything else it does is a call into \<^verbatim>\<open>requests\<close>, \<^verbatim>\<open>urllib3\<close>,
  \<^verbatim>\<open>json\<close>, \<^verbatim>\<open>time\<close> or \<^verbatim>\<open>print\<close>.  The embedding keeps the three methods as they are
  written.  Of the library it follows the code that the claims depend on: the choice of the
  adapter (\<^verbatim>\<open>requests.sessions\<close>), the retry loop (\<^verbatim>\<open>urllib3.connectionpool\<close>,
  \<^verbatim>\<open>urllib3.util.retry\<close>) and the following of redirects.  What \<^verbatim>\<open>requests\<close> does to
  prepare a request (URL, parameters, merged headers, cookies, authentication), the
  network, the JSON decoder and the text of an exception are parameters, collected in the
  record \<open>world\<close>.
\<close>

text \<open>A decoded JSON document: what \<^verbatim>\<open>response.json()\<close> returns.  \<^verbatim>\<open>{}\<close> is \<open>JObj []\<close>.\<close>

datatype json =
    JNull
  | JBool bool
  | JInt int
  | JFloat real
  | JStr string
  | JArr "json list"
  | JObj "(string \<times> json) list"

text \<open>A Python \<^verbatim>\<open>dict\<close> from strings to strings, as the list of its items.\<close>

type_synonym dict = "(string \<times> string) list"

text \<open>
  The exceptions the modelled operations raise.  All of them derive from
  \<^verbatim>\<open>Exception\<close>; \<open>JSONDecodeError\<close> is \<^verbatim>\<open>requests.exceptions.JSONDecodeError\<close>, a
  subclass of \<^verbatim>\<open>json.JSONDecodeError\<close>, and the only one here that
  \<^verbatim>\<open>except json.JSONDecodeError\<close> catches.  \<open>MissingSchema\<close>, \<open>InvalidURL\<close> and
  \<open>InvalidSchema\<close> carry the URL, \<open>InvalidHeader\<close> the header, \<open>ConnectionError\<close> the
  transport's own error, \<open>RetryError\<close> the last status code.
\<close>

datatype exc =
    JSONDecodeError
  | ValueError
  | RecursionError
  | MissingSchema string
  | InvalidURL string
  | InvalidHeader string
  | InvalidSchema string
  | ConnectionError string
  | RetryError nat
  | TooManyRedirects

datatype 'a outcome = Return 'a | Raise exc

text \<open>\<^verbatim>\<open>urllib3.util.retry.Retry\<close>: the counters this program sets, and the number of
  failed tries recorded so far (the length of \<^verbatim>\<open>Retry.history\<close>).\<close>

record retry =
  total :: int
  backoff_factor :: nat
  status_forcelist :: "nat list"
  history :: nat

record http_adapter =
  max_retries :: retry

text \<open>
  \<^verbatim>\<open>requests.Session\<close>: its default headers, its mounted adapters in the order of the
  \<^verbatim>\<open>OrderedDict\<close>, and the attribute \<open>timeout\<close> that \<^verbatim>\<open>__init__\<close> assigns.
\<close>

record requests_session =
  s_headers :: dict
  adapters :: "(string \<times> http_adapter) list"
  timeout :: "nat option"

text \<open>The \<^verbatim>\<open>Retry-After\<close> header of a response: absent (or empty), a number of seconds
  (a date counts as the seconds until it, 0 when it is past), or text that is neither.\<close>

datatype retry_after_header = NoRetryAfter | RetryAfter nat | BadRetryAfter

text \<open>An HTTP response, read to its end: status code, \<^verbatim>\<open>Retry-After\<close> header,
  \<^verbatim>\<open>Location\<close> header when present, and the body text.\<close>

record response =
  status :: nat
  retry_after :: retry_after_header
  location :: "string option"
  body :: string

text \<open>What one try on the wire gives: a response, or a transport failure with its text.\<close>

datatype reply = Reply response | NoReply string

text \<open>The prepared request as the adapter sends it; the URL holds the query parameters.\<close>

record wire_request =
  rq_url :: string
  rq_headers :: dict
  rq_timeout :: "nat option"

text \<open>The arguments of one call of \<^verbatim>\<open>Session.get\<close>.\<close>

record get_call =
  g_url :: string
  g_params :: "dict option"
  g_headers :: dict
  g_timeout :: "nat option"

text \<open>
  What a call does besides returning: \<open>Sleep\<close> is the wrapper's \<^verbatim>\<open>time.sleep(self.delay)\<close>,
  \<open>Get\<close> a call of \<^verbatim>\<open>Session.get\<close> with its arguments, \<open>Attempt\<close> one try on the wire,
  \<open>Backoff\<close> the retry policy's sleep between two tries, \<open>Print\<close> one line written by
  \<^verbatim>\<open>print\<close>.
\<close>

datatype event =
    Sleep nat
  | Get get_call
  | Attempt wire_request
  | Backoff nat
  | Print string

text \<open>What \<^verbatim>\<open>Session.prepare_request\<close> makes of a call: the prepared URL and headers,
  or one of the three refusals, raised before anything is sent.\<close>

datatype preparation =
    Prepared string dict
  | NoSchema
  | BadURL
  | BadHeader string

text \<open>
  The environment of one call.
  \<^item> \<open>prepare sh url params hdrs\<close> is \<^verbatim>\<open>Session.prepare_request\<close> for a session with
    default headers \<open>sh\<close> and a GET of \<open>url\<close> with \<open>params\<close> and headers \<open>hdrs\<close>.
  \<^item> \<open>server rq k\<close> is the reply to try number \<open>k\<close> (from 0) of request \<open>rq\<close>.
  \<^item> \<open>redirect_url rq loc\<close> is the URL that a redirect of \<open>rq\<close> to the \<^verbatim>\<open>Location\<close>
    \<open>loc\<close> leads to, \<open>redirect_headers rq rsp\<close> the headers of the request that follows
    the redirect \<open>rsp\<close> of \<open>rq\<close> (cookies, authentication and body headers rebuilt).
  \<^item> \<open>loads\<close> is the JSON decoder as \<^verbatim>\<open>Response.json\<close> calls it: the document, or the
    exception it raises (\<open>JSONDecodeError\<close> for text that is not JSON).
  \<^item> \<open>str_exc\<close> is Python's \<^verbatim>\<open>str(err)\<close>.
\<close>

record world =
  prepare :: "dict \<Rightarrow> string \<Rightarrow> dict option \<Rightarrow> dict \<Rightarrow> preparation"
  server :: "wire_request \<Rightarrow> nat \<Rightarrow> reply"
  redirect_url :: "wire_request \<Rightarrow> string \<Rightarrow> string"
  redirect_headers :: "wire_request \<Rightarrow> response \<Rightarrow> dict"
  loads :: "string \<Rightarrow> json outcome"
  str_exc :: "exc \<Rightarrow> string"

fun gets :: "event list \<Rightarrow> get_call list" where
  "gets [] = []"
| "gets (Get g # es) = g # gets es"
| "gets (_ # es) = gets es"

fun attempts :: "event list \<Rightarrow> wire_request list" where
  "attempts [] = []"
| "attempts (Attempt rq # es) = rq # attempts es"
| "attempts (_ # es) = attempts es"

fun backoffs :: "event list \<Rightarrow> nat list" where
  "backoffs [] = []"
| "backoffs (Backoff n # es) = n # backoffs es"
| "backoffs (_ # es) = backoffs es"

fun prints :: "event list \<Rightarrow> string list" where
  "prints [] = []"
| "prints (Print s # es) = s # prints es"
| "prints (_ # es) = prints es"

section \<open>The library calls\<close>

subsection \<open>Strings and dictionaries\<close>

definition lower_char :: "char \<Rightarrow> char" where
  "lower_char c =
     (let n = (of_char c :: nat) in if 65 \<le> n \<and> n \<le> 90 then char_of (n + 32) else c)"

text \<open>\<^verbatim>\<open>str.lower\<close> on ASCII text.\<close>

definition lower :: "string \<Rightarrow> string" where
  "lower s = map lower_char s"

text \<open>\<^verbatim>\<open>s.startswith(p)\<close>.\<close>

definition startswith :: "string \<Rightarrow> string \<Rightarrow> bool" where
  "startswith s p = (take (length p) s = p)"

text \<open>\<^verbatim>\<open>d[k] = v\<close> on an ordered dictionary: in place when the key is there, at the end
  otherwise.\<close>

fun dict_set :: "string \<Rightarrow> 'v \<Rightarrow> (string \<times> 'v) list \<Rightarrow> (string \<times> 'v) list" where
  "dict_set k v [] = [(k, v)]"
| "dict_set k v ((k', v') # d) = (if k' = k then (k, v) # d else (k', v') # dict_set k v d)"

text \<open>\<^verbatim>\<open>d[k] = v\<close> on a \<^verbatim>\<open>CaseInsensitiveDict\<close>: names equal up to case are one key, which
  keeps its place and takes the name as last written.\<close>

fun ci_set :: "string \<Rightarrow> string \<Rightarrow> dict \<Rightarrow> dict" where
  "ci_set k v [] = [(k, v)]"
| "ci_set k v ((k', v') # d) =
     (if lower k' = lower k then (k, v) # d else (k', v') # ci_set k v d)"

fun ci_update :: "dict \<Rightarrow> dict \<Rightarrow> dict" where
  "ci_update d [] = d"
| "ci_update d ((k, v) # kvs) = ci_update (ci_set k v d) kvs"

text \<open>\<^verbatim>\<open>requests.sessions.merge_setting\<close> on two header dictionaries: the session's
  headers, updated with the request's.\<close>

definition merge_setting :: "dict \<Rightarrow> dict \<Rightarrow> dict" where
  "merge_setting request_setting session_setting = ci_update (ci_update [] session_setting) request_setting"

subsection \<open>Retry policy\<close>

text \<open>\<^verbatim>\<open>Retry(total=t, backoff_factor=b, status_forcelist=f)\<close>, with an empty history.\<close>

definition Retry :: "int \<Rightarrow> nat \<Rightarrow> nat list \<Rightarrow> retry" where
  "Retry t b f = \<lparr>total = t, backoff_factor = b, status_forcelist = f, history = 0\<rparr>"

definition RETRY_AFTER_STATUS_CODES :: "nat list" where
  "RETRY_AFTER_STATUS_CODES = [413, 429, 503]"

definition DEFAULT_BACKOFF_MAX :: nat where
  "DEFAULT_BACKOFF_MAX = 120"

text \<open>\<^verbatim>\<open>Retry.is_retry\<close> for the method GET, which is always retryable.\<close>

definition is_retry :: "retry \<Rightarrow> nat \<Rightarrow> bool \<Rightarrow> bool" where
  "is_retry r status_code has_retry_after =
     (if status_forcelist r \<noteq> [] \<and> status_code \<in> set (status_forcelist r) then True
      else total r \<noteq> 0 \<and> has_retry_after \<and> status_code \<in> set RETRY_AFTER_STATUS_CODES)"

text \<open>\<^verbatim>\<open>Retry.is_exhausted\<close>: of the counters only \<open>total\<close> is set, and a counter that is
  0 is dropped before the minimum is taken.\<close>

definition is_exhausted :: "retry \<Rightarrow> bool" where
  "is_exhausted r = (total r \<noteq> 0 \<and> total r < 0)"

text \<open>\<^verbatim>\<open>Retry.increment\<close>: one retry less, one more entry in the history; \<open>None\<close> is
  \<^verbatim>\<open>MaxRetryError\<close>.\<close>

definition increment :: "retry \<Rightarrow> retry option" where
  "increment r =
     (let new_retry = r\<lparr>total := total r - 1, history := history r + 1\<rparr>
      in if is_exhausted new_retry then None else Some new_retry)"

text \<open>\<^verbatim>\<open>Retry.get_backoff_time\<close>.\<close>

definition get_backoff_time :: "retry \<Rightarrow> nat" where
  "get_backoff_time r =
     (if history r \<le> 1 then 0
      else min DEFAULT_BACKOFF_MAX (backoff_factor r * 2 ^ (history r - 1)))"

text \<open>\<^verbatim>\<open>Retry._sleep_backoff\<close>: no sleep at all when the backoff is 0.\<close>

definition sleep_backoff :: "retry \<Rightarrow> event list" where
  "sleep_backoff r = (let backoff = get_backoff_time r in if backoff \<le> 0 then [] else [Backoff backoff])"

text \<open>\<^verbatim>\<open>Retry.sleep(response)\<close>: a \<^verbatim>\<open>Retry-After\<close> header of the response that is not 0
  is obeyed, one that cannot be read is an \<^verbatim>\<open>InvalidHeader\<close>, otherwise the backoff
  applies.\<close>

definition retry_sleep :: "retry \<Rightarrow> response option \<Rightarrow> event list outcome" where
  "retry_sleep r rsp =
     (case rsp of
        None \<Rightarrow> Return (sleep_backoff r)
      | Some x \<Rightarrow>
          (case retry_after x of
             NoRetryAfter \<Rightarrow> Return (sleep_backoff r)
           | BadRetryAfter \<Rightarrow> Raise (InvalidHeader ''Retry-After'')
           | RetryAfter n \<Rightarrow> Return (if n \<noteq> 0 then [Backoff n] else sleep_backoff r)))"

subsection \<open>Adapters and sessions\<close>

text \<open>\<^verbatim>\<open>HTTPAdapter(max_retries=r)\<close>.\<close>

definition HTTPAdapter :: "retry \<Rightarrow> http_adapter" where
  "HTTPAdapter r = \<lparr>max_retries = r\<rparr>"

text \<open>\<^verbatim>\<open>HTTPAdapter()\<close>: \<^verbatim>\<open>DEFAULT_RETRIES = 0\<close> gives \<^verbatim>\<open>Retry(0, read=False)\<close>, a policy
  that never retries.\<close>

definition DEFAULT_RETRIES :: retry where
  "DEFAULT_RETRIES = Retry 0 0 []"

text \<open>
  \<^verbatim>\<open>Session.mount(prefix, adapter)\<close>: the adapter is stored under the prefix (in place
  when the prefix is already mounted, at the end otherwise), then every shorter prefix is
  moved behind it.
\<close>

definition mount :: "requests_session \<Rightarrow> string \<Rightarrow> http_adapter \<Rightarrow> requests_session" where
  "mount s prefix adapter =
     (let ads = dict_set prefix adapter (adapters s);
          keys_to_move = filter (\<lambda>(k, a). length k < length prefix) ads
      in s\<lparr>adapters := filter (\<lambda>(k, a). \<not> length k < length prefix) ads @ keys_to_move\<rparr>)"

text \<open>\<^verbatim>\<open>requests.utils.default_headers()\<close>; the \<^verbatim>\<open>User-Agent\<close> also names the library's
  version, which is left out.\<close>

definition default_headers :: dict where
  "default_headers =
     [(''User-Agent'', ''python-requests''), (''Accept-Encoding'', ''gzip, deflate''),
      (''Accept'', ''*/*''), (''Connection'', ''keep-alive'')]"

text \<open>\<^verbatim>\<open>requests.session()\<close>: a new session with the default headers and a default
  adapter for each of the two schemes.  A new session has no attribute \<open>timeout\<close>.\<close>

definition new_session :: requests_session where
  "new_session =
     mount (mount \<lparr>s_headers = default_headers, adapters = [], timeout = None\<rparr>
                  ''https://'' (HTTPAdapter DEFAULT_RETRIES))
           ''http://'' (HTTPAdapter DEFAULT_RETRIES)"

text \<open>\<^verbatim>\<open>Session.get_adapter(url)\<close>: the first mounted prefix that the URL starts with,
  both in lower case; \<^verbatim>\<open>InvalidSchema\<close> when there is none.\<close>

fun find_adapter :: "(string \<times> http_adapter) list \<Rightarrow> string \<Rightarrow> http_adapter outcome" where
  "find_adapter [] url = Raise (InvalidSchema url)"
| "find_adapter ((prefix, adapter) # rest) url =
     (if startswith (lower url) (lower prefix) then Return adapter else find_adapter rest url)"

definition get_adapter :: "requests_session \<Rightarrow> string \<Rightarrow> http_adapter outcome" where
  "get_adapter s url = find_adapter (adapters s) url"

subsection \<open>Sending with retries\<close>

text \<open>
  \<^verbatim>\<open>HTTPConnectionPool.urlopen\<close> as \<^verbatim>\<open>HTTPAdapter.send\<close> calls it (GET, no redirect
  followed at this level), with the exception already the one \<^verbatim>\<open>HTTPAdapter.send\<close> raises
  for it.  \<open>srv k\<close> is the reply to try number \<open>k\<close>.  A try without a reply is counted
  against the policy and repeated after the backoff, until the policy is exhausted
  (\<^verbatim>\<open>ConnectionError\<close>).  A reply whose status the policy retries on is counted and
  repeated after \<^verbatim>\<open>Retry.sleep\<close>, until the policy is exhausted (\<^verbatim>\<open>RetryError\<close>, since
  \<^verbatim>\<open>raise_on_status\<close> is left at \<^verbatim>\<open>True\<close>).  Any other reply is the response.
\<close>

function urlopen ::
  "(nat \<Rightarrow> reply) \<Rightarrow> wire_request \<Rightarrow> retry \<Rightarrow> nat \<Rightarrow> response outcome \<times> event list" where
  "urlopen srv rq retries k =
     (case srv k of
        NoReply msg \<Rightarrow>
          (case increment retries of
             None \<Rightarrow> (Raise (ConnectionError msg), [Attempt rq])
           | Some retries' \<Rightarrow>
               (case urlopen srv rq retries' (Suc k) of
                  (res, es) \<Rightarrow> (res, Attempt rq # sleep_backoff retries' @ es)))
      | Reply rsp \<Rightarrow>
          if is_retry retries (status rsp) (retry_after rsp \<noteq> NoRetryAfter) then
            (case increment retries of
               None \<Rightarrow> (Raise (RetryError (status rsp)), [Attempt rq])
             | Some retries' \<Rightarrow>
                 (case retry_sleep retries' (Some rsp) of
                    Raise e \<Rightarrow> (Raise e, [Attempt rq])
                  | Return zs \<Rightarrow>
                      (case urlopen srv rq retries' (Suc k) of
                         (res, es) \<Rightarrow> (res, Attempt rq # zs @ es))))
          else (Return rsp, [Attempt rq]))"
  by pat_completeness auto
termination
  by (relation "measure (\<lambda>(srv, rq, retries, k). nat (total retries))")
     (auto simp: increment_def is_exhausted_def Let_def split: if_splits)

declare urlopen.simps [simp del]

text \<open>\<^verbatim>\<open>Session.send\<close> without the redirects: the adapter mounted for the URL of the
  request sends it under its own retry policy.\<close>

definition adapter_send ::
  "world \<Rightarrow> requests_session \<Rightarrow> wire_request \<Rightarrow> response outcome \<times> event list" where
  "adapter_send wd s rq =
     (case get_adapter s (rq_url rq) of
        Raise e \<Rightarrow> (Raise e, [])
      | Return adapter \<Rightarrow> urlopen (server wd rq) rq (max_retries adapter) 0)"

subsection \<open>Redirects\<close>

definition REDIRECT_STATI :: "nat list" where
  "REDIRECT_STATI = [301, 302, 303, 307, 308]"

definition DEFAULT_REDIRECT_LIMIT :: nat where
  "DEFAULT_REDIRECT_LIMIT = 30"

text \<open>\<^verbatim>\<open>get_redirect_target\<close>, with the test of the loop that follows it: the
  \<^verbatim>\<open>Location\<close> of a redirect, when it is not empty.\<close>

definition get_redirect_target :: "response \<Rightarrow> string option" where
  "get_redirect_target resp =
     (case location resp of
        None \<Rightarrow> None
      | Some loc \<Rightarrow> if status resp \<in> set REDIRECT_STATI \<and> loc \<noteq> [] then Some loc else None)"

text \<open>
  \<^verbatim>\<open>Session.resolve_redirects\<close>: while the response is a redirect, the request is sent
  again to the new URL, through the adapter mounted for that URL and with the same timeout.
  The first argument counts the redirects that may still be followed;
  \<^verbatim>\<open>TooManyRedirects\<close> when there is none left.
\<close>

fun resolve_redirects ::
  "nat \<Rightarrow> world \<Rightarrow> requests_session \<Rightarrow> wire_request \<Rightarrow> response
     \<Rightarrow> response outcome \<times> event list" where
  "resolve_redirects 0 wd s req resp =
     (case get_redirect_target resp of
        None \<Rightarrow> (Return resp, [])
      | Some loc \<Rightarrow> (Raise TooManyRedirects, []))"
| "resolve_redirects (Suc n) wd s req resp =
     (case get_redirect_target resp of
        None \<Rightarrow> (Return resp, [])
      | Some loc \<Rightarrow>
          (let prepared_request =
                 req\<lparr>rq_url := redirect_url wd req loc,
                     rq_headers := redirect_headers wd req resp\<rparr>
           in case adapter_send wd s prepared_request of
                (Raise e, es) \<Rightarrow> (Raise e, es)
              | (Return resp', es) \<Rightarrow>
                  (case resolve_redirects n wd s prepared_request resp' of
                     (res, es') \<Rightarrow> (res, es @ es'))))"

subsection \<open>\<^verbatim>\<open>Session.get\<close>, \<^verbatim>\<open>Response.json\<close>, \<^verbatim>\<open>time.sleep\<close>\<close>

text \<open>
  \<^verbatim>\<open>Session.request\<close> for a GET: the request is prepared, which may refuse it before
  anything is sent; the timeout handed to the adapter is the call's \<^verbatim>\<open>timeout\<close> argument
  (\<^verbatim>\<open>None\<close> when the call passes none) - no attribute of the session is read for it; the
  prepared request is sent and redirects are followed.
\<close>

definition session_request ::
  "world \<Rightarrow> requests_session \<Rightarrow> string \<Rightarrow> dict option \<Rightarrow> dict \<Rightarrow> nat option
     \<Rightarrow> response outcome \<times> event list" where
  "session_request wd s url params hdrs tmo =
     (case prepare wd (s_headers s) url params hdrs of
        NoSchema \<Rightarrow> (Raise (MissingSchema url), [])
      | BadURL \<Rightarrow> (Raise (InvalidURL url), [])
      | BadHeader h \<Rightarrow> (Raise (InvalidHeader h), [])
      | Prepared u h \<Rightarrow>
          (let req = \<lparr>rq_url = u, rq_headers = h, rq_timeout = tmo\<rparr>
           in case adapter_send wd s req of
                (Raise e, es) \<Rightarrow> (Raise e, es)
              | (Return resp, es) \<Rightarrow>
                  (case resolve_redirects DEFAULT_REDIRECT_LIMIT wd s req resp of
                     (res, es') \<Rightarrow> (res, es @ es'))))"

text \<open>\<^verbatim>\<open>Session.get(url, params=.., headers=.., timeout=..)\<close>: the call is recorded with
  its arguments, then carried out.\<close>

definition session_get ::
  "world \<Rightarrow> requests_session \<Rightarrow> string \<Rightarrow> dict option \<Rightarrow> dict \<Rightarrow> nat option
     \<Rightarrow> response outcome \<times> event list" where
  "session_get wd s url params hdrs tmo =
     (case session_request wd s url params hdrs tmo of
        (res, es) \<Rightarrow>
          (res, Get \<lparr>g_url = url, g_params = params, g_headers = hdrs, g_timeout = tmo\<rparr> # es))"

text \<open>\<^verbatim>\<open>Response.json()\<close>: what the decoder makes of the body.\<close>

definition response_json :: "world \<Rightarrow> response \<Rightarrow> json outcome" where
  "response_json wd rsp = loads wd (body rsp)"

text \<open>\<^verbatim>\<open>time.sleep(secs)\<close>: a negative length is a \<^verbatim>\<open>ValueError\<close>.\<close>

definition time_sleep :: "int \<Rightarrow> unit outcome \<times> event list" where
  "time_sleep secs = (if secs < 0 then (Raise ValueError, []) else (Return (), [Sleep (nat secs)]))"

section \<open>The wrapper\<close>

record custom_session =
  session :: requests_session
  headers :: dict
  delay :: int

text \<open>The retry strategy that \<^verbatim>\<open>__init__\<close> builds.\<close>

definition retries :: retry where
  "retries = Retry 3 2 [500, 502, 503, 504, 400, 401, 402, 403]"

text \<open>\<^verbatim>\<open>CustomSession.__init__(headers)\<close>; \<open>None\<close> is the default argument.\<close>

definition init :: "dict option \<Rightarrow> custom_session" where
  "init hdrs =
     (let s = new_session;
          h = (case hdrs of None \<Rightarrow> [] | Some d \<Rightarrow> if d \<noteq> [] then d else []);
          s = mount s ''https://'' (HTTPAdapter retries);
          s = s\<lparr>timeout := Some 30\<rparr>
      in \<lparr>session = s, headers = h, delay = 1\<rparr>)"

text \<open>\<^verbatim>\<open>CustomSession.get_session()\<close>: the value returned, and the wrapper after the call.\<close>

definition get_session :: "custom_session \<Rightarrow> requests_session \<times> custom_session" where
  "get_session self = (session self, self)"

text \<open>The body of the \<^verbatim>\<open>try\<close> block of \<^verbatim>\<open>hit_and_get_data\<close>: sleep, GET, decode.\<close>

definition try_body ::
  "world \<Rightarrow> custom_session \<Rightarrow> string \<Rightarrow> dict option \<Rightarrow> json outcome \<times> event list" where
  "try_body wd self url params =
     (case time_sleep (delay self) of
        (Raise e, es0) \<Rightarrow> (Raise e, es0)
      | (Return u, es0) \<Rightarrow>
          (case session_get wd (session self) url params (headers self) None of
             (Raise e, es1) \<Rightarrow> (Raise e, es0 @ es1)
           | (Return rsp, es1) \<Rightarrow> (response_json wd rsp, es0 @ es1)))"

text \<open>
  \<^verbatim>\<open>CustomSession.hit_and_get_data(url, params)\<close>: the \<^verbatim>\<open>try\<close> block with its two
  \<^verbatim>\<open>except\<close> clauses, \<^verbatim>\<open>json.JSONDecodeError\<close> first, then \<^verbatim>\<open>Exception\<close>.
\<close>

definition hit_and_get_data ::
  "world \<Rightarrow> custom_session \<Rightarrow> string \<Rightarrow> dict option \<Rightarrow> json outcome \<times> event list" where
  "hit_and_get_data wd self url params =
     (case try_body wd self url params of
        (Return v, es) \<Rightarrow> (Return v, es)
      | (Raise err, es) \<Rightarrow>
          if err = JSONDecodeError then
            (Return (JObj []),
             es @ [Print (''Failed to decode JSON from response at URL: '' @ url)])
          else
            (Return (JObj []),
             es @ [Print (''Error in connecting to URL: '' @ url @ '' | Error: '' @ str_exc wd err)]))"

section \<open>Example environments\<close>

text \<open>A decoder for the documents of the examples: two arrays and the empty mapping are
  decoded, any other text is not JSON.\<close>

definition example_loads :: "string \<Rightarrow> json outcome" where
  "example_loads s =
     (if s = ''{}'' then Return (JObj [])
      else if s = ''[]'' then Return (JArr [])
      else if s = ''[1, 2]'' then Return (JArr [JInt 1, JInt 2])
      else Raise JSONDecodeError)"

text \<open>A rendering of \<^verbatim>\<open>str(err)\<close> for the examples.\<close>

fun example_str :: "exc \<Rightarrow> string" where
  "example_str (ConnectionError msg) = msg"
| "example_str (RetryError code) = ''too many error responses''"
| "example_str ValueError = ''Exceeds the limit (4300 digits) for integer string conversion''"
| "example_str e = ''error''"

text \<open>
  The preparation of the requests of the examples: the three URLs below, without
  parameters or with the one parameter \<^verbatim>\<open>id=1\<close>, and headers merged by name.  Requests
  outside the examples are not prepared here.
\<close>

definition example_urls :: "string list" where
  "example_urls =
     [''https://example.test/data'', ''http://example.test/data'', ''http://other.test/items'']"

definition example_prepare :: "dict \<Rightarrow> string \<Rightarrow> dict option \<Rightarrow> dict \<Rightarrow> preparation" where
  "example_prepare sh url params hdrs =
     (if url \<in> set example_urls \<and> params = None then Prepared url (merge_setting hdrs sh)
      else if url \<in> set example_urls \<and> params = Some [(''id'', ''1'')]
        then Prepared (url @ ''?id=1'') (merge_setting hdrs sh)
      else BadURL)"

text \<open>A server that gives every try the same status and body, without \<^verbatim>\<open>Retry-After\<close>
  and without \<^verbatim>\<open>Location\<close>.\<close>

definition always :: "nat \<Rightarrow> string \<Rightarrow> world" where
  "always code text =
     \<lparr>prepare = example_prepare,
      server = (\<lambda>rq k. Reply \<lparr>status = code, retry_after = NoRetryAfter, location = None,
                               body = text\<rparr>),
      redirect_url = (\<lambda>rq loc. loc), redirect_headers = (\<lambda>rq rsp. rq_headers rq),
      loads = example_loads, str_exc = example_str\<rparr>"

text \<open>A server that cannot be reached.\<close>

definition unreachable :: world where
  "unreachable =
     \<lparr>prepare = example_prepare,
      server = (\<lambda>rq k. NoReply ''Connection refused''),
      redirect_url = (\<lambda>rq loc. loc), redirect_headers = (\<lambda>rq rsp. rq_headers rq),
      loads = example_loads, str_exc = example_str\<rparr>"

text \<open>
  A server that answers 200 with a whole number of 4301 digits.  The text is JSON, but
  Python's decoder refuses a number of more than 4300 digits with a \<^verbatim>\<open>ValueError\<close>.
\<close>

definition big_number_text :: string where
  "big_number_text = replicate 4301 (CHR ''7'')"

definition limited_loads :: "string \<Rightarrow> json outcome" where
  "limited_loads s = (if s = big_number_text then Raise ValueError else example_loads s)"

definition big_number_reply :: world where
  "big_number_reply = (always 200 big_number_text)\<lparr>loads := limited_loads\<rparr>"

section \<open>Facts about the events and the library calls\<close>

lemma gets_append: "gets (xs @ ys) = gets xs @ gets ys"
  by (induction xs rule: gets.induct) simp_all

lemma attempts_append: "attempts (xs @ ys) = attempts xs @ attempts ys"
  by (induction xs rule: attempts.induct) simp_all

lemma prints_append: "prints (xs @ ys) = prints xs @ prints ys"
  by (induction xs rule: prints.induct) simp_all

lemma backoffs_append: "backoffs (xs @ ys) = backoffs xs @ backoffs ys"
  by (induction xs rule: backoffs.induct) simp_all

lemma sleep_backoff_quiet:
  "gets (sleep_backoff r) = []" "attempts (sleep_backoff r) = []" "prints (sleep_backoff r) = []"
  by (simp_all add: sleep_backoff_def Let_def)

lemma retry_sleep_quiet:
  assumes "retry_sleep r x = Return zs"
  shows "gets zs = []" "attempts zs = []" "prints zs = []"
  using assms
  by (auto simp: retry_sleep_def sleep_backoff_quiet
           split: option.splits retry_after_header.splits if_splits)

lemma retry_sleep_raises: "retry_sleep r x = Raise e \<Longrightarrow> e = InvalidHeader ''Retry-After''"
  by (auto simp: retry_sleep_def split: option.splits retry_after_header.splits)

lemma adapters_init:
  "adapters (session (init hdrs)) =
     [(''https://'', HTTPAdapter retries), (''http://'', HTTPAdapter DEFAULT_RETRIES)]"
  by (simp add: init_def new_session_def mount_def Let_def)

lemma delay_init: "delay (init hdrs) = 1"
  by (simp add: init_def Let_def)

lemma headers_init: "headers (init hdrs) = (case hdrs of None \<Rightarrow> [] | Some d \<Rightarrow> d)"
  by (simp add: init_def Let_def split: option.splits)

lemma s_headers_init: "s_headers (session (init hdrs)) = default_headers"
  by (simp add: init_def new_session_def mount_def Let_def)

lemma lower_https: "lower ''https://'' = ''https://''"
  by (simp add: lower_def lower_char_def Let_def)

lemma lower_http: "lower ''http://'' = ''http://''"
  by (simp add: lower_def lower_char_def Let_def)

lemma get_adapter_https:
  "startswith (lower url) ''https://'' \<Longrightarrow>
     get_adapter (session (init hdrs)) url = Return (HTTPAdapter retries)"
  by (simp add: get_adapter_def adapters_init lower_https)

lemma get_adapter_http:
  "\<not> startswith (lower url) ''https://'' \<Longrightarrow> startswith (lower url) ''http://'' \<Longrightarrow>
     get_adapter (session (init hdrs)) url = Return (HTTPAdapter DEFAULT_RETRIES)"
  by (simp add: get_adapter_def adapters_init lower_https lower_http)

lemma find_adapter_raises: "find_adapter ads url = Raise e \<Longrightarrow> e = InvalidSchema url"
  by (induction ads url rule: find_adapter.induct) (auto split: if_splits)

lemma urlopen_quiet:
  "gets (snd (urlopen srv rq r k)) = [] \<and> prints (snd (urlopen srv rq r k)) = []"
proof (induction srv rq r k rule: urlopen.induct)
  case (1 srv rq r k)
  show ?case
    using "1.IH"
    by (subst (1 2) urlopen.simps)
       (auto simp: gets_append prints_append sleep_backoff_quiet retry_sleep_quiet case_prod_beta
             split: reply.splits option.splits outcome.splits)
qed


lemma urlopen_raises:
  "fst (urlopen srv rq r k) = Raise e \<Longrightarrow> e \<noteq> JSONDecodeError"
proof (induction srv rq r k rule: urlopen.induct)
  case (1 srv rq r k)
  from "1.prems" show ?case
    using "1.IH"
    by (subst (asm) urlopen.simps)
       (auto simp: case_prod_beta dest: retry_sleep_raises
             split: reply.splits option.splits if_splits outcome.splits)
qed

lemma adapter_send_quiet:
  "gets (snd (adapter_send wd s rq)) = [] \<and> prints (snd (adapter_send wd s rq)) = []"
  by (simp add: adapter_send_def urlopen_quiet split: outcome.splits)

lemma adapter_send_raises: "fst (adapter_send wd s rq) = Raise e \<Longrightarrow> e \<noteq> JSONDecodeError"
  by (auto simp: adapter_send_def get_adapter_def split: outcome.splits
      dest: urlopen_raises find_adapter_raises)

lemma resolve_redirects_quiet:
  "gets (snd (resolve_redirects n wd s rq resp)) = [] \<and>
   prints (snd (resolve_redirects n wd s rq resp)) = []"
proof (induction n arbitrary: rq resp)
  case 0
  show ?case by (simp split: option.splits)
next
  case (Suc n)
  show ?case
    using Suc.IH adapter_send_quiet
    by (auto simp: Let_def gets_append prints_append case_prod_beta
             split: option.splits outcome.splits prod.splits)
qed

lemma resolve_redirects_raises:
  "fst (resolve_redirects n wd s rq resp) = Raise e \<Longrightarrow> e \<noteq> JSONDecodeError"
proof (induction n arbitrary: rq resp)
  case 0
  then show ?case by (auto split: option.splits)
next
  case (Suc n)
  from Suc.prems show ?case
    using Suc.IH adapter_send_raises
    by (fastforce simp: Let_def case_prod_beta split: option.splits outcome.splits prod.splits)
qed

lemma session_request_quiet:
  "gets (snd (session_request wd s url params hdrs tmo)) = [] \<and>
   prints (snd (session_request wd s url params hdrs tmo)) = []"
  using adapter_send_quiet resolve_redirects_quiet
  by (auto simp: session_request_def Let_def gets_append prints_append case_prod_beta
           split: preparation.splits outcome.splits prod.splits)

lemma session_request_raises:
  "fst (session_request wd s url params hdrs tmo) = Raise e \<Longrightarrow> e \<noteq> JSONDecodeError"
  using adapter_send_raises resolve_redirects_raises
  by (fastforce simp: session_request_def Let_def case_prod_beta
           split: preparation.splits outcome.splits prod.splits)

lemma session_get_raises:
  "fst (session_get wd s url params hdrs tmo) = Raise e \<Longrightarrow> e \<noteq> JSONDecodeError"
  using session_request_raises [of wd s url params hdrs tmo e]
  by (simp add: session_get_def case_prod_beta)

lemma session_get_prints: "prints (snd (session_get wd s url params hdrs tmo)) = []"
  by (simp add: session_get_def case_prod_beta session_request_quiet)


lemma session_get_events:
  "snd (session_get wd s url params hdrs tmo) =
     Get \<lparr>g_url = url, g_params = params, g_headers = hdrs, g_timeout = tmo\<rparr>
       # snd (session_request wd s url params hdrs tmo)"
  by (simp add: session_get_def case_prod_beta)

lemma try_body_init:
  "try_body wd (init hdrs) url params =
     (case session_get wd (session (init hdrs)) url params (headers (init hdrs)) None of
        (Raise e, es) \<Rightarrow> (Raise e, Sleep 1 # es)
      | (Return rsp, es) \<Rightarrow> (response_json wd rsp, Sleep 1 # es))"
  by (simp add: try_body_def time_sleep_def delay_init split: prod.splits outcome.splits)

lemma hit_events_init:
  "\<exists>ps. snd (hit_and_get_data wd (init hdrs) url params) =
     Sleep 1 # snd (session_get wd (session (init hdrs)) url params (headers (init hdrs)) None)
       @ map Print ps"
proof (cases "session_get wd (session (init hdrs)) url params (headers (init hdrs)) None")
  case (Pair res es)
  show ?thesis
  proof (cases res)
    case (Return rsp)
    show ?thesis
    proof (cases "loads wd (body rsp)")
      case (Return v)
      have "snd (hit_and_get_data wd (init hdrs) url params) = Sleep 1 # es @ map Print []"
        by (simp add: hit_and_get_data_def try_body_init response_json_def Pair \<open>res = Return rsp\<close> Return)
      then show ?thesis unfolding Pair snd_conv by blast
    next
      case (Raise e)
      have "\<exists>m. snd (hit_and_get_data wd (init hdrs) url params) = Sleep 1 # es @ map Print [m]"
        by (simp add: hit_and_get_data_def try_body_init response_json_def Pair \<open>res = Return rsp\<close> Raise)
      then show ?thesis unfolding Pair snd_conv by blast
    qed
  next
    case (Raise e)
    have "\<exists>m. snd (hit_and_get_data wd (init hdrs) url params) = Sleep 1 # es @ map Print [m]"
      by (simp add: hit_and_get_data_def try_body_init Pair Raise)
    then show ?thesis unfolding Pair snd_conv by blast
  qed
qed


lemma attempts_map_Print: "attempts (map Print ps) = []"
  by (induction ps) simp_all


lemma hit_attempts_init:
  "attempts (snd (hit_and_get_data wd (init hdrs) url params)) =
     attempts (snd (session_request wd (session (init hdrs)) url params (headers (init hdrs)) None))"
proof -
  from hit_events_init [of wd hdrs url params] obtain ps where
    "snd (hit_and_get_data wd (init hdrs) url params) =
       Sleep 1 # snd (session_get wd (session (init hdrs)) url params (headers (init hdrs)) None)
         @ map Print ps" ..
  then show ?thesis by (simp add: attempts_append session_get_events attempts_map_Print)
qed


lemma forcelist_retries:
  "set (status_forcelist retries) = {500, 502, 503, 504, 400, 401, 402, 403}"
  by (simp add: retries_def Retry_def)

lemma total_retries: "total retries = int 3"
  by (simp add: retries_def Retry_def)

lemma retries_fields:
  "total retries = 3" "backoff_factor retries = 2" "history retries = 0"
  "status_forcelist retries \<noteq> []"
  by (simp_all add: retries_def Retry_def)

lemma adapter_send_https:
  "startswith (lower (rq_url rq)) ''https://'' \<Longrightarrow>
     adapter_send wd (session (init hdrs)) rq = urlopen (server wd rq) rq retries 0"
  by (simp add: adapter_send_def get_adapter_https HTTPAdapter_def)

lemma adapter_send_http:
  "\<not> startswith (lower (rq_url rq)) ''https://'' \<Longrightarrow> startswith (lower (rq_url rq)) ''http://''
   \<Longrightarrow> adapter_send wd (session (init hdrs)) rq = urlopen (server wd rq) rq DEFAULT_RETRIES 0"
  by (simp add: adapter_send_def get_adapter_http HTTPAdapter_def)

lemma urlopen_at_least_once: "1 \<le> length (attempts (snd (urlopen srv rq r k)))"
  by (subst urlopen.simps)
     (auto simp: case_prod_beta split: reply.splits option.splits outcome.splits)

lemma urlopen_bound:
  "total r = int n \<Longrightarrow> length (attempts (snd (urlopen srv rq r k))) \<le> Suc n"
proof (induction n arbitrary: r k)
  case 0
  then have inc: "increment r = None"
    by (simp add: increment_def is_exhausted_def Let_def)
  show ?case
    by (subst urlopen.simps) (simp add: inc split: reply.splits)
next
  case (Suc n)
  define r' where "r' = r\<lparr>total := total r - 1, history := history r + 1\<rparr>"
  have inc: "increment r = Some r'"
    using Suc.prems by (simp add: increment_def is_exhausted_def Let_def r'_def)
  have "total r' = int n" using Suc.prems by (simp add: r'_def)
  then have IH: "length (attempts (snd (urlopen srv rq r' (Suc k)))) \<le> Suc n"
    by (rule Suc.IH)
  show ?case
    using IH
    by (subst urlopen.simps)
       (auto simp: inc attempts_append sleep_backoff_quiet retry_sleep_quiet case_prod_beta
             split: reply.splits outcome.splits)
qed

lemma urlopen_default_once: "length (attempts (snd (urlopen srv rq DEFAULT_RETRIES k))) = 1"
  by (subst urlopen.simps)
     (simp add: DEFAULT_RETRIES_def Retry_def is_retry_def increment_def is_exhausted_def Let_def
           split: reply.splits)

lemma urlopen_status_exhausts:
  assumes "\<forall>j. \<exists>rsp. srv j = Reply rsp \<and> status rsp \<in> set (status_forcelist r) \<and>
             retry_after rsp \<noteq> BadRetryAfter"
    and "total r = int n"
  shows "(\<exists>c. fst (urlopen srv rq r k) = Raise (RetryError c)) \<and>
         attempts (snd (urlopen srv rq r k)) = replicate (Suc n) rq"
  using assms
proof (induction n arbitrary: r k)
  case 0
  from "0.prems"(1) obtain rsp where r: "srv k = Reply rsp" "status rsp \<in> set (status_forcelist r)"
    by blast
  then have ne: "status_forcelist r \<noteq> []" by auto
  have inc: "increment r = None"
    using "0.prems"(2) by (simp add: increment_def is_exhausted_def Let_def)
  show ?case
    by (subst (1 2) urlopen.simps) (simp add: r ne inc is_retry_def)
next
  case (Suc n)
  from Suc.prems(1) obtain rsp where r: "srv k = Reply rsp" "status rsp \<in> set (status_forcelist r)"
    "retry_after rsp \<noteq> BadRetryAfter"
    by blast
  then have ne: "status_forcelist r \<noteq> []" by auto
  define r' where "r' = r\<lparr>total := total r - 1, history := history r + 1\<rparr>"
  have inc: "increment r = Some r'"
    using Suc.prems(2) by (simp add: increment_def is_exhausted_def Let_def r'_def)
  obtain zs where zs: "retry_sleep r' (Some rsp) = Return zs"
    using r(3) by (cases "retry_after rsp") (simp_all add: retry_sleep_def)
  have "\<forall>j. \<exists>rsp. srv j = Reply rsp \<and> status rsp \<in> set (status_forcelist r') \<and>
          retry_after rsp \<noteq> BadRetryAfter"
    using Suc.prems(1) by (simp add: r'_def)
  moreover have "total r' = int n" using Suc.prems(2) by (simp add: r'_def)
  ultimately have IH: "(\<exists>c. fst (urlopen srv rq r' (Suc k)) = Raise (RetryError c)) \<and>
         attempts (snd (urlopen srv rq r' (Suc k))) = replicate (Suc n) rq"
    by (rule Suc.IH)
  show ?case
    using IH
    by (subst (1 2) urlopen.simps)
       (simp add: r ne inc zs is_retry_def attempts_append retry_sleep_quiet [OF zs] case_prod_beta)
qed

lemma session_request_raise:
  assumes "prepare wd (s_headers s) url params hdrs = Prepared u h"
    and "fst (adapter_send wd s \<lparr>rq_url = u, rq_headers = h, rq_timeout = tmo\<rparr>) = Raise e"
  shows "session_request wd s url params hdrs tmo =
           adapter_send wd s \<lparr>rq_url = u, rq_headers = h, rq_timeout = tmo\<rparr>"
  using assms
  by (cases "adapter_send wd s \<lparr>rq_url = u, rq_headers = h, rq_timeout = tmo\<rparr>")
     (simp add: session_request_def Let_def)

lemma hit_value_init:
  "fst (hit_and_get_data wd (init hdrs) url params) =
     Return (case fst (session_get wd (session (init hdrs)) url params (headers (init hdrs)) None) of
               Raise e \<Rightarrow> JObj []
             | Return rsp \<Rightarrow> (case loads wd (body rsp) of Raise e \<Rightarrow> JObj [] | Return v \<Rightarrow> v))"
  by (cases "session_get wd (session (init hdrs)) url params (headers (init hdrs)) None")
     (simp add: hit_and_get_data_def try_body_init response_json_def
           split: outcome.splits)


lemma session_get_value:
  "fst (session_get wd s url params hdrs tmo) = fst (session_request wd s url params hdrs tmo)"
  by (simp add: session_get_def case_prod_beta)

lemma https_example: "startswith (lower ''https://example.test/data'') ''https://''"
  by (simp add: startswith_def lower_def lower_char_def Let_def)

lemma http_example:
  "\<not> startswith (lower ''http://example.test/data'') ''https://''"
  "startswith (lower ''http://example.test/data'') ''http://''"
  by (simp_all add: startswith_def lower_def lower_char_def Let_def)

lemma session_get_big_number_reply:
  "fst (session_get big_number_reply (session (init None)) ''https://example.test/data'' None
          (headers (init None)) None)
     = Return \<lparr>status = 200, retry_after = NoRetryAfter, location = None,
               body = big_number_text\<rparr>"
  by (simp add: session_get_def session_request_def case_prod_beta Let_def big_number_reply_def
        always_def example_prepare_def example_urls_def headers_init s_headers_init
        adapter_send_https https_example urlopen.simps is_retry_def retries_def Retry_def
        RETRY_AFTER_STATUS_CODES_def DEFAULT_REDIRECT_LIMIT_def get_redirect_target_def
        numeral_eq_Suc)

lemma urlopen_returns_reply:
  "fst (urlopen srv rq r k) = Return resp \<Longrightarrow> \<exists>j. srv j = Reply resp"
proof (induction srv rq r k rule: urlopen.induct)
  case (1 srv rq r k)
  from "1.prems" show ?case
    using "1.IH"
    by (subst (asm) urlopen.simps)
       (auto simp: case_prod_beta split: reply.splits option.splits if_splits outcome.splits)
qed

lemma resolve_redirects_none:
  "get_redirect_target resp = None \<Longrightarrow> resolve_redirects n wd s rq resp = (Return resp, [])"
  by (cases n) simp_all

lemma session_request_no_redirect:
  assumes "prepare wd (s_headers s) url params hdrs = Prepared u h"
    and "\<forall>k rsp. server wd \<lparr>rq_url = u, rq_headers = h, rq_timeout = tmo\<rparr> k = Reply rsp \<longrightarrow>
           get_redirect_target rsp = None"
  shows "session_request wd s url params hdrs tmo =
           adapter_send wd s \<lparr>rq_url = u, rq_headers = h, rq_timeout = tmo\<rparr>"
proof -
  let ?rq = "\<lparr>rq_url = u, rq_headers = h, rq_timeout = tmo\<rparr>"
  obtain res es where a: "adapter_send wd s ?rq = (res, es)" by (cases "adapter_send wd s ?rq")
  show ?thesis
  proof (cases res)
    case (Raise e)
    then show ?thesis using assms(1) a by (simp add: session_request_def Let_def)
  next
    case (Return resp)
    then have "fst (adapter_send wd s ?rq) = Return resp" using a by simp
    then have "\<exists>j. server wd ?rq j = Reply resp"
      by (auto simp: adapter_send_def split: outcome.splits dest: urlopen_returns_reply)
    with assms(2) have "get_redirect_target resp = None" by blast
    then have "resolve_redirects DEFAULT_REDIRECT_LIMIT wd s ?rq resp = (Return resp, [])"
      by (rule resolve_redirects_none)
    then show ?thesis using assms(1) a Return by (simp add: session_request_def Let_def)
  qed
qed

section \<open>The contract of \<^verbatim>\<open>hit_and_get_data\<close>\<close>

text \<open>
  C1.  \<^verbatim>\<open>hit_and_get_data\<close> never raises: for every environment, wrapper, URL and
  parameters it returns a value.  When \<^verbatim>\<open>session.get\<close> raises (the request refused,
  no adapter for the URL, connection failure, retries exhausted, too many redirects) and
  when the decoder raises on the body of the response, the value returned is the empty
  mapping.
\<close>

theorem hit_and_get_data_never_raises:
  "(\<exists>v. fst (hit_and_get_data wd self url params) = Return v) \<and>
   (\<forall>e. fst (session_get wd (session self) url params (headers self) None) = Raise e \<longrightarrow>
        fst (hit_and_get_data wd self url params) = Return (JObj [])) \<and>
   (\<forall>rsp e. fst (session_get wd (session self) url params (headers self) None) = Return rsp \<and>
          loads wd (body rsp) = Raise e \<longrightarrow>
        fst (hit_and_get_data wd self url params) = Return (JObj []))"
proof -
  obtain res es where sg:
    "session_get wd (session self) url params (headers self) None = (res, es)"
    by (cases "session_get wd (session self) url params (headers self) None")
  show ?thesis
    by (cases res)
       (auto simp: hit_and_get_data_def try_body_def time_sleep_def response_json_def sg
             split: outcome.splits)
qed

theorem hit_and_get_data_never_raises_witness:
  "fst (session_get unreachable (session (init None)) ''https://example.test/data'' None
          (headers (init None)) None) = Raise (ConnectionError ''Connection refused'') \<and>
   fst (hit_and_get_data unreachable (init None) ''https://example.test/data'' None)
     = Return (JObj []) \<and>
   fst (session_get (always 200 ''not-json'') (session (init None)) ''https://example.test/data''
          None (headers (init None)) None)
     = Return \<lparr>status = 200, retry_after = NoRetryAfter, location = None, body = ''not-json''\<rparr> \<and>
   loads (always 200 ''not-json'') ''not-json'' = Raise JSONDecodeError \<and>
   fst (hit_and_get_data (always 200 ''not-json'') (init None) ''https://example.test/data'' None)
     = Return (JObj [])"
proof -
  let ?url = "''https://example.test/data''"
  let ?rsp = "\<lparr>status = 200, retry_after = NoRetryAfter, location = None, body = ''not-json''\<rparr>"
  have h: "fst (session_get unreachable (session (init None)) ?url None
          (headers (init None)) None) = Raise (ConnectionError ''Connection refused'')"
    by code_simp
  have a: "fst (session_get (always 200 ''not-json'') (session (init None)) ?url None
             (headers (init None)) None) = Return ?rsp"
    by code_simp
  have b: "loads (always 200 ''not-json'') (body ?rsp) = Raise JSONDecodeError"
    by code_simp
  from hit_and_get_data_never_raises [of unreachable "init None" ?url None] h
  have 1: "fst (hit_and_get_data unreachable (init None) ?url None) = Return (JObj [])"
    by blast
  from hit_and_get_data_never_raises [of "always 200 ''not-json''" "init None" ?url None] a b
  have 2: "fst (hit_and_get_data (always 200 ''not-json'') (init None) ?url None)
             = Return (JObj [])"
    by blast
  from h a b 1 2 show ?thesis by simp
qed

text \<open>
  C2 (as amended).  When \<^verbatim>\<open>session.get\<close> returns a response and the decoder decodes its
  body, the value returned by \<^verbatim>\<open>hit_and_get_data\<close> is that decoded document, unmodified.
\<close>

theorem hit_and_get_data_returns_parse:
  "fst (session_get wd (session (init hdrs)) url params (headers (init hdrs)) None) = Return rsp
   \<Longrightarrow> loads wd (body rsp) = Return v
   \<Longrightarrow> fst (hit_and_get_data wd (init hdrs) url params) = Return v"
  by (simp add: hit_value_init)

theorem hit_and_get_data_returns_parse_witness:
  "fst (session_get (always 200 ''[1, 2]'') (session (init None)) ''https://example.test/data''
          (Some [(''id'', ''1'')]) (headers (init None)) None)
     = Return \<lparr>status = 200, retry_after = NoRetryAfter, location = None, body = ''[1, 2]''\<rparr> \<and>
   loads (always 200 ''[1, 2]'') ''[1, 2]'' = Return (JArr [JInt 1, JInt 2]) \<and>
   fst (hit_and_get_data (always 200 ''[1, 2]'') (init None) ''https://example.test/data''
          (Some [(''id'', ''1'')])) = Return (JArr [JInt 1, JInt 2])"
proof -
  let ?rsp = "\<lparr>status = 200, retry_after = NoRetryAfter, location = None, body = ''[1, 2]''\<rparr>"
  have h1: "fst (session_get (always 200 ''[1, 2]'') (session (init None))
          ''https://example.test/data'' (Some [(''id'', ''1'')]) (headers (init None)) None)
     = Return ?rsp"
    by code_simp
  have h2: "loads (always 200 ''[1, 2]'') (body ?rsp) = Return (JArr [JInt 1, JInt 2])"
    by code_simp
  from hit_and_get_data_returns_parse [OF h1 h2] h1 h2 show ?thesis by simp
qed

text \<open>
  The claim as written speaks of every URL whose response body is well-formed JSON.  Over
  \<^verbatim>\<open>https://\<close>, an endpoint that answers every try with 403 and the body \<^verbatim>\<open>[1, 2]\<close>
  exhausts the retries; \<^verbatim>\<open>session.get\<close> raises and the value returned is the empty
  mapping, not the decoded body.
\<close>

theorem listed_status_json_body_counterexample:
  "loads (always 403 ''[1, 2]'') ''[1, 2]'' = Return (JArr [JInt 1, JInt 2]) \<and>
   fst (hit_and_get_data (always 403 ''[1, 2]'') (init None) ''https://example.test/data'' None)
     = Return (JObj []) \<and>
   fst (hit_and_get_data (always 403 ''[1, 2]'') (init None) ''https://example.test/data'' None)
     \<noteq> Return (JArr [JInt 1, JInt 2])"
  by code_simp

section \<open>Configuration: headers, retry policy, timeout, delay\<close>





text \<open>
  C4 (as amended).  A request sent to a URL that starts with \<^verbatim>\<open>https://\<close> is tried at
  least once and at most 4 times, the first try and at most 3 retries
  (\<^verbatim>\<open>Retry(total=3)\<close> counts the retries); a request sent to a URL that starts with
  \<^verbatim>\<open>http://\<close> is tried exactly once.  The same bounds hold for the tries of a whole call
  of \<^verbatim>\<open>hit_and_get_data\<close> whose request \<^verbatim>\<open>requests\<close> accepts, when no answer is a
  redirect.  When \<^verbatim>\<open>requests\<close> accepts the request of a call, its URL starts with
  \<^verbatim>\<open>https://\<close> and every try is answered with a status in
  \<open>{500, 502, 503, 504, 400, 401, 402, 403}\<close> whose \<^verbatim>\<open>Retry-After\<close> header, if there is
  one, can be read, the call makes exactly 4 tries and returns the empty mapping.
\<close>

theorem retry_policy_four_attempts:
  "(prepare wd default_headers url params (headers (init hdrs)) = Prepared u h \<and>
    startswith (lower u) ''https://'' \<and>
    (\<forall>rq k. \<exists>rsp. server wd rq k = Reply rsp \<and>
        status rsp \<in> {500, 502, 503, 504, 400, 401, 402, 403} \<and>
        retry_after rsp \<noteq> BadRetryAfter) \<longrightarrow>
      length (attempts (snd (hit_and_get_data wd (init hdrs) url params))) = 4 \<and>
      fst (hit_and_get_data wd (init hdrs) url params) = Return (JObj [])) \<and>
   (startswith (lower (rq_url rq)) ''https://'' \<longrightarrow>
      1 \<le> length (attempts (snd (adapter_send wd (session (init hdrs)) rq))) \<and>
      length (attempts (snd (adapter_send wd (session (init hdrs)) rq))) \<le> 1 + 3) \<and>
   (\<not> startswith (lower (rq_url rq)) ''https://'' \<and> startswith (lower (rq_url rq)) ''http://''
      \<longrightarrow> length (attempts (snd (adapter_send wd (session (init hdrs)) rq))) = 1) \<and>
   (prepare wd default_headers url params (headers (init hdrs)) = Prepared u h \<and>
    (\<forall>rq k rsp. server wd rq k = Reply rsp \<longrightarrow> get_redirect_target rsp = None) \<longrightarrow>
      (startswith (lower u) ''https://'' \<longrightarrow>
         1 \<le> length (attempts (snd (hit_and_get_data wd (init hdrs) url params))) \<and>
         length (attempts (snd (hit_and_get_data wd (init hdrs) url params))) \<le> 1 + 3) \<and>
      (\<not> startswith (lower u) ''https://'' \<and> startswith (lower u) ''http://'' \<longrightarrow>
         length (attempts (snd (hit_and_get_data wd (init hdrs) url params))) = 1))"
proof -
  let ?s = "session (init hdrs)"
  have bound: "1 \<le> length (attempts (snd (adapter_send wd ?s r))) \<and>
               length (attempts (snd (adapter_send wd ?s r))) \<le> 1 + 3"
    if "startswith (lower (rq_url r)) ''https://''" for r
  proof -
    have ad: "adapter_send wd ?s r = urlopen (server wd r) r retries 0"
      using that by (rule adapter_send_https)
    show ?thesis
      unfolding ad
      using urlopen_at_least_once [of "server wd r" r retries 0]
        urlopen_bound [OF total_retries, of "server wd r" r 0] by simp
  qed
  have once: "length (attempts (snd (adapter_send wd ?s r))) = 1"
    if "\<not> startswith (lower (rq_url r)) ''https://''" "startswith (lower (rq_url r)) ''http://''"
    for r
    using that by (simp add: adapter_send_http urlopen_default_once)
  have exact: "length (attempts (snd (hit_and_get_data wd (init hdrs) url params))) = 4 \<and>
      fst (hit_and_get_data wd (init hdrs) url params) = Return (JObj [])"
    if p0: "prepare wd default_headers url params (headers (init hdrs)) = Prepared u h"
      and hs: "startswith (lower u) ''https://''"
      and sv: "\<forall>rq k. \<exists>rsp. server wd rq k = Reply rsp \<and>
        status rsp \<in> {500, 502, 503, 504, 400, 401, 402, 403} \<and>
        retry_after rsp \<noteq> BadRetryAfter"
  proof -
    let ?rq = "\<lparr>rq_url = u, rq_headers = h, rq_timeout = None\<rparr>"
    let ?sr = "session_request wd ?s url params (headers (init hdrs)) None"
    have ad: "adapter_send wd ?s ?rq = urlopen (server wd ?rq) ?rq retries 0"
      using hs by (simp add: adapter_send_https)
    have "\<forall>j. \<exists>rsp. server wd ?rq j = Reply rsp \<and> status rsp \<in> set (status_forcelist retries) \<and>
            retry_after rsp \<noteq> BadRetryAfter"
      unfolding forcelist_retries using sv by blast
    from urlopen_status_exhausts [OF this total_retries, of ?rq 0] obtain c where
      r: "fst (adapter_send wd ?s ?rq) = Raise (RetryError c)" and
      n: "attempts (snd (adapter_send wd ?s ?rq)) = replicate 4 ?rq"
      by (auto simp: ad numeral_eq_Suc)
    have p: "prepare wd (s_headers ?s) url params (headers (init hdrs)) = Prepared u h"
      using p0 by (simp add: s_headers_init)
    have sr: "?sr = adapter_send wd ?s ?rq"
      using p r by (rule session_request_raise)
    show ?thesis
      by (simp add: hit_attempts_init hit_value_init session_get_value sr n r)
  qed
  have whole: "attempts (snd (hit_and_get_data wd (init hdrs) url params)) =
                 attempts (snd (adapter_send wd ?s \<lparr>rq_url = u, rq_headers = h, rq_timeout = None\<rparr>))"
    if p0: "prepare wd default_headers url params (headers (init hdrs)) = Prepared u h"
      and nr: "\<forall>rq k rsp. server wd rq k = Reply rsp \<longrightarrow> get_redirect_target rsp = None"
  proof -
    have p: "prepare wd (s_headers ?s) url params (headers (init hdrs)) = Prepared u h"
      using p0 by (simp add: s_headers_init)
    from nr have "\<forall>k rsp. server wd \<lparr>rq_url = u, rq_headers = h, rq_timeout = None\<rparr> k = Reply rsp
                    \<longrightarrow> get_redirect_target rsp = None"
      by blast
    from session_request_no_redirect [OF p this] show ?thesis
      by (simp add: hit_attempts_init)
  qed
  have hit_bound:
    "1 \<le> length (attempts (snd (hit_and_get_data wd (init hdrs) url params))) \<and>
     length (attempts (snd (hit_and_get_data wd (init hdrs) url params))) \<le> 1 + 3"
    if "prepare wd default_headers url params (headers (init hdrs)) = Prepared u h"
      "\<forall>rq k rsp. server wd rq k = Reply rsp \<longrightarrow> get_redirect_target rsp = None"
      "startswith (lower u) ''https://''"
    using whole [OF that(1,2)] bound [of "\<lparr>rq_url = u, rq_headers = h, rq_timeout = None\<rparr>"]
      that(3) by simp
  have hit_once:
    "length (attempts (snd (hit_and_get_data wd (init hdrs) url params))) = 1"
    if "prepare wd default_headers url params (headers (init hdrs)) = Prepared u h"
      "\<forall>rq k rsp. server wd rq k = Reply rsp \<longrightarrow> get_redirect_target rsp = None"
      "\<not> startswith (lower u) ''https://''" "startswith (lower u) ''http://''"
    using whole [OF that(1,2)] once [of "\<lparr>rq_url = u, rq_headers = h, rq_timeout = None\<rparr>"]
      that(3,4) by simp
  show ?thesis
  proof (intro conjI impI)
    show "length (attempts (snd (hit_and_get_data wd (init hdrs) url params))) = 4"
      if "prepare wd default_headers url params (headers (init hdrs)) = Prepared u h \<and>
          startswith (lower u) ''https://'' \<and>
          (\<forall>rq k. \<exists>rsp. server wd rq k = Reply rsp \<and>
              status rsp \<in> {500, 502, 503, 504, 400, 401, 402, 403} \<and>
              retry_after rsp \<noteq> BadRetryAfter)"
      using exact that by blast
    show "fst (hit_and_get_data wd (init hdrs) url params) = Return (JObj [])"
      if "prepare wd default_headers url params (headers (init hdrs)) = Prepared u h \<and>
          startswith (lower u) ''https://'' \<and>
          (\<forall>rq k. \<exists>rsp. server wd rq k = Reply rsp \<and>
              status rsp \<in> {500, 502, 503, 504, 400, 401, 402, 403} \<and>
              retry_after rsp \<noteq> BadRetryAfter)"
      using exact that by blast
  qed (use bound [of rq] once [of rq] hit_bound hit_once in blast)+
qed


theorem retry_policy_four_attempts_witness:
  "length (attempts (snd (hit_and_get_data (always 503 ''[]'') (init None)
      ''https://example.test/data'' None))) = 4 \<and>
   fst (hit_and_get_data (always 503 ''[]'') (init None) ''https://example.test/data'' None)
     = Return (JObj []) \<and>
   length (attempts (snd (adapter_send (always 200 ''[]'') (session (init None))
      \<lparr>rq_url = ''https://example.test/data'', rq_headers = [], rq_timeout = None\<rparr>))) \<le> 4 \<and>
   length (attempts (snd (adapter_send (always 503 ''[]'') (session (init None))
      \<lparr>rq_url = ''http://example.test/data'', rq_headers = [], rq_timeout = None\<rparr>))) = 1 \<and>
   length (attempts (snd (hit_and_get_data (always 200 ''[]'') (init None)
      ''https://example.test/data'' None))) \<le> 4 \<and>
   length (attempts (snd (hit_and_get_data (always 503 ''[]'') (init None)
      ''http://example.test/data'' None))) = 1"
proof -
  let ?url = "''https://example.test/data''"
  let ?url' = "''http://example.test/data''"
  let ?h = "merge_setting [] default_headers"
  let ?a = "\<lparr>rq_url = ''https://example.test/data'', rq_headers = [], rq_timeout = None\<rparr>"
  let ?b = "\<lparr>rq_url = ''http://example.test/data'', rq_headers = [], rq_timeout = None\<rparr>"
  have p: "prepare (always c t) default_headers ?url None (headers (init None))
             = Prepared ?url ?h" for c t
    by (simp add: always_def example_prepare_def example_urls_def headers_init)
  have p': "prepare (always c t) default_headers ?url' None (headers (init None))
             = Prepared ?url' ?h" for c t
    by (simp add: always_def example_prepare_def example_urls_def headers_init)
  have a: "\<forall>rq k. \<exists>rsp. server (always 503 ''[]'') rq k = Reply rsp \<and>
             status rsp \<in> {500, 502, 503, 504, 400, 401, 402, 403} \<and>
             retry_after rsp \<noteq> BadRetryAfter"
    by (simp add: always_def)
  have nr: "\<forall>rq k rsp. server (always c t) rq k = Reply rsp \<longrightarrow> get_redirect_target rsp = None"
    for c t
    by (auto simp: always_def get_redirect_target_def)
  have s: "startswith (lower (rq_url ?a)) ''https://''"
    using https_example by simp
  have s': "\<not> startswith (lower (rq_url ?b)) ''https://'' \<and>
            startswith (lower (rq_url ?b)) ''http://''"
    using http_example by simp
  from retry_policy_four_attempts [of "always 503 ''[]''" ?url None None ?url ?h ?a]
       p a https_example
  have 1: "length (attempts (snd (hit_and_get_data (always 503 ''[]'') (init None) ?url None))) = 4
           \<and> fst (hit_and_get_data (always 503 ''[]'') (init None) ?url None) = Return (JObj [])"
    by blast
  from retry_policy_four_attempts [of "always 200 ''[]''" ?url None None ?url ?h ?a]
       s p nr https_example
  have 2: "length (attempts (snd (adapter_send (always 200 ''[]'') (session (init None)) ?a)))
             \<le> 1 + 3 \<and>
           length (attempts (snd (hit_and_get_data (always 200 ''[]'') (init None) ?url None)))
             \<le> 1 + 3"
    by blast
  from retry_policy_four_attempts [of "always 503 ''[]''" ?url' None None ?url' ?h ?b]
       s' p' nr http_example
  have 3: "length (attempts (snd (adapter_send (always 503 ''[]'') (session (init None)) ?b))) = 1
           \<and> length (attempts (snd (hit_and_get_data (always 503 ''[]'') (init None) ?url'
                 None))) = 1"
    by blast
  from 1 2 3 show ?thesis by simp
qed

text \<open>
  The claim as written speaks of every request.  Over \<^verbatim>\<open>http://\<close> an endpoint that always
  answers 503 is tried once, and the body of that answer is decoded and returned.
\<close>

theorem plain_http_single_attempt_counterexample:
  "length (attempts (snd (hit_and_get_data (always 503 ''[]'') (init None)
      ''http://example.test/data'' None))) = 1 \<and>
   fst (hit_and_get_data (always 503 ''[]'') (init None) ''http://example.test/data'' None)
     = Return (JArr [])"
  by code_simp

text \<open>
  C5 (as amended).  When \<^verbatim>\<open>requests\<close> accepts the request of a call, its URL starts with
  \<^verbatim>\<open>https://\<close> and every try is answered with a status of the list and no
  \<^verbatim>\<open>Retry-After\<close> header, the first retry follows the first try at once, the second
  retry waits \<open>2 * 2 ^ 1 = 4\<close> seconds and the third \<open>2 * 2 ^ 2 = 8\<close> seconds: the
  waits between successive tries are 0, 4 and 8 seconds, strictly increasing.
\<close>

theorem backoff_schedule:
  assumes "prepare wd default_headers url params (headers (init hdrs)) = Prepared u h"
    and "startswith (lower u) ''https://''"
    and "\<forall>rq k. \<exists>rsp. server wd rq k = Reply rsp \<and> retry_after rsp = NoRetryAfter \<and>
           status rsp \<in> {500, 502, 503, 504, 400, 401, 402, 403}"
  shows "\<exists>msg. snd (hit_and_get_data wd (init hdrs) url params) =
           [Sleep 1,
            Get \<lparr>g_url = url, g_params = params, g_headers = headers (init hdrs),
                 g_timeout = None\<rparr>,
            Attempt \<lparr>rq_url = u, rq_headers = h, rq_timeout = None\<rparr>,
            Attempt \<lparr>rq_url = u, rq_headers = h, rq_timeout = None\<rparr>,
            Backoff (2 * 2 ^ 1),
            Attempt \<lparr>rq_url = u, rq_headers = h, rq_timeout = None\<rparr>,
            Backoff (2 * 2 ^ 2),
            Attempt \<lparr>rq_url = u, rq_headers = h, rq_timeout = None\<rparr>,
            Print msg]"
proof -
  let ?rq = "\<lparr>rq_url = u, rq_headers = h, rq_timeout = None\<rparr>"
  let ?s = "session (init hdrs)"
  have ad: "adapter_send wd ?s ?rq = urlopen (server wd ?rq) ?rq retries 0"
    using assms(2) by (simp add: adapter_send_https)
  have step: "\<exists>rsp. server wd ?rq k = Reply rsp \<and> retry_after rsp = NoRetryAfter \<and>
                 status rsp \<in> set (status_forcelist retries)" for k
    unfolding forcelist_retries using assms(3) by blast
  obtain r0 r1 r2 r3 where
    r0: "server wd ?rq 0 = Reply r0" "retry_after r0 = NoRetryAfter"
        "status r0 \<in> set (status_forcelist retries)" and
    r1: "server wd ?rq (Suc 0) = Reply r1" "retry_after r1 = NoRetryAfter"
        "status r1 \<in> set (status_forcelist retries)" and
    r2: "server wd ?rq (Suc (Suc 0)) = Reply r2" "retry_after r2 = NoRetryAfter"
        "status r2 \<in> set (status_forcelist retries)" and
    r3: "server wd ?rq (Suc (Suc (Suc 0))) = Reply r3" "retry_after r3 = NoRetryAfter"
        "status r3 \<in> set (status_forcelist retries)"
    using step [of 0] step [of "Suc 0"] step [of "Suc (Suc 0)"] step [of "Suc (Suc (Suc 0))"]
    by blast
  have u: "urlopen (server wd ?rq) ?rq retries 0 =
             (Raise (RetryError (status r3)),
              [Attempt ?rq, Attempt ?rq, Backoff 4, Attempt ?rq, Backoff 8, Attempt ?rq])"
    by (simp add: urlopen.simps r0 r1 r2 r3 is_retry_def increment_def is_exhausted_def
          retry_sleep_def sleep_backoff_def get_backoff_time_def DEFAULT_BACKOFF_MAX_def
          retries_fields Let_def)
  have p: "prepare wd (s_headers ?s) url params (headers (init hdrs)) = Prepared u h"
    using assms(1) by (simp add: s_headers_init)
  have sr: "session_request wd ?s url params (headers (init hdrs)) None = adapter_send wd ?s ?rq"
    using p by (rule session_request_raise) (simp add: ad u)
  show ?thesis
    by (simp add: hit_and_get_data_def try_body_init session_get_def sr ad u)
qed

theorem backoff_schedule_witness:
  "backoffs (snd (hit_and_get_data (always 503 ''[]'') (init None)
      ''https://example.test/data'' None)) = [4, 8] \<and>
   length (attempts (snd (hit_and_get_data (always 503 ''[]'') (init None)
      ''https://example.test/data'' None))) = 4"
proof -
  let ?url = "''https://example.test/data''"
  have p: "prepare (always 503 ''[]'') default_headers ?url None (headers (init None))
             = Prepared ?url (merge_setting [] default_headers)"
    by (simp add: always_def example_prepare_def example_urls_def headers_init)
  have a: "\<forall>rq k. \<exists>rsp. server (always 503 ''[]'') rq k = Reply rsp \<and>
             retry_after rsp = NoRetryAfter \<and>
             status rsp \<in> {500, 502, 503, 504, 400, 401, 402, 403}"
    by (simp add: always_def)
  from backoff_schedule [OF p https_example a] obtain msg where
    "snd (hit_and_get_data (always 503 ''[]'') (init None) ?url None) =
       [Sleep 1,
        Get \<lparr>g_url = ?url, g_params = None, g_headers = headers (init None), g_timeout = None\<rparr>,
        Attempt \<lparr>rq_url = ?url, rq_headers = merge_setting [] default_headers, rq_timeout = None\<rparr>,
        Attempt \<lparr>rq_url = ?url, rq_headers = merge_setting [] default_headers, rq_timeout = None\<rparr>,
        Backoff (2 * 2 ^ 1),
        Attempt \<lparr>rq_url = ?url, rq_headers = merge_setting [] default_headers, rq_timeout = None\<rparr>,
        Backoff (2 * 2 ^ 2),
        Attempt \<lparr>rq_url = ?url, rq_headers = merge_setting [] default_headers, rq_timeout = None\<rparr>,
        Print msg]"
    by blast
  then show ?thesis by simp
qed

text \<open>
  The claim as written gives the wait before a retry as \<open>2 * 2 ^ (attempt - 1)\<close> seconds.
  After the first failed try the policy's backoff is 0, not \<open>2 * 2 ^ (1 - 1) = 2\<close>; no
  numbering of the tries makes 0 a value of that formula.
\<close>

theorem first_retry_immediate_counterexample:
  "\<not> (map_option get_backoff_time (increment retries) = Some (backoff_factor retries * 2 ^ (1 - 1)))"
  by (simp add: increment_def is_exhausted_def get_backoff_time_def retries_def Retry_def Let_def)

text \<open>
  C6.  \<^verbatim>\<open>__init__\<close> stores 30 in the attribute \<open>timeout\<close> of the session, but
  \<^verbatim>\<open>hit_and_get_data\<close> calls \<^verbatim>\<open>session.get\<close> without a \<^verbatim>\<open>timeout\<close> argument, and the
  session's attribute is not read when a request is sent: each of the four tries against
  an unreachable server goes out with no timeout at all.
\<close>

theorem timeout_not_applied:
  "timeout (session (init None)) = Some 30 \<and>
   map rq_timeout (attempts (snd (hit_and_get_data unreachable (init None)
      ''https://example.test/data'' None))) = [None, None, None, None]"
  by code_simp

text \<open>
  C7.  Every call of \<^verbatim>\<open>hit_and_get_data\<close> on a wrapper built by \<^verbatim>\<open>__init__\<close> begins with
  the sleep of 1 second and only then calls \<^verbatim>\<open>session.get\<close>; every try of the GET request
  comes after both.
\<close>

theorem sleep_precedes_request:
  "\<exists>es. snd (hit_and_get_data wd (init hdrs) url params) =
          Sleep 1 # Get \<lparr>g_url = url, g_params = params, g_headers = headers (init hdrs),
                          g_timeout = None\<rparr> # es \<and>
        attempts (snd (hit_and_get_data wd (init hdrs) url params)) = attempts es"
  using hit_events_init [of wd hdrs url params]
  by (auto simp: session_get_events)


section \<open>Diagnostics\<close>

text \<open>
  C8.  On a failure \<^verbatim>\<open>hit_and_get_data\<close> prints exactly one line and returns the empty
  mapping.  When the body of the response is not JSON the line is
  \<^verbatim>\<open>Failed to decode JSON from response at URL: \<close> followed by the URL; when
  \<^verbatim>\<open>session.get\<close> raises, or the decoder raises another exception, it is
  \<^verbatim>\<open>Error in connecting to URL: \<close>, the URL, \<^verbatim>\<open> | Error: \<close> and the text of the
  exception.
\<close>

theorem one_diagnostic_per_failure:
  "(\<forall>rsp. fst (session_get wd (session (init hdrs)) url params (headers (init hdrs)) None)
            = Return rsp \<and> loads wd (body rsp) = Raise JSONDecodeError \<longrightarrow>
      fst (hit_and_get_data wd (init hdrs) url params) = Return (JObj []) \<and>
      prints (snd (hit_and_get_data wd (init hdrs) url params)) =
        [''Failed to decode JSON from response at URL: '' @ url]) \<and>
   (\<forall>e. fst (session_get wd (session (init hdrs)) url params (headers (init hdrs)) None)
            = Raise e \<longrightarrow>
      fst (hit_and_get_data wd (init hdrs) url params) = Return (JObj []) \<and>
      prints (snd (hit_and_get_data wd (init hdrs) url params)) =
        [''Error in connecting to URL: '' @ url @ '' | Error: '' @ str_exc wd e]) \<and>
   (\<forall>rsp e. fst (session_get wd (session (init hdrs)) url params (headers (init hdrs)) None)
            = Return rsp \<and> loads wd (body rsp) = Raise e \<and> e \<noteq> JSONDecodeError \<longrightarrow>
      fst (hit_and_get_data wd (init hdrs) url params) = Return (JObj []) \<and>
      prints (snd (hit_and_get_data wd (init hdrs) url params)) =
        [''Error in connecting to URL: '' @ url @ '' | Error: '' @ str_exc wd e])"
proof -
  let ?sg = "session_get wd (session (init hdrs)) url params (headers (init hdrs)) None"
  obtain res es where sg: "?sg = (res, es)" by (cases ?sg)
  have p: "prints es = []"
    using session_get_prints [of wd "session (init hdrs)" url params "headers (init hdrs)" None]
    by (simp add: sg)
  have ne: "e \<noteq> JSONDecodeError" if "res = Raise e" for e
    using session_get_raises [of wd "session (init hdrs)" url params "headers (init hdrs)" None e]
      that by (simp add: sg)
  show ?thesis
    using ne
    by (cases res)
       (auto simp: hit_and_get_data_def try_body_init response_json_def sg p prints_append)
qed

theorem one_diagnostic_per_failure_witness:
  "prints (snd (hit_and_get_data (always 200 ''not-json'') (init None)
      ''https://example.test/data'' None)) =
     [''Failed to decode JSON from response at URL: https://example.test/data''] \<and>
   fst (hit_and_get_data (always 200 ''not-json'') (init None)
      ''https://example.test/data'' None) = Return (JObj []) \<and>
   prints (snd (hit_and_get_data unreachable (init None) ''https://example.test/data'' None)) =
     [''Error in connecting to URL: https://example.test/data | Error: Connection refused''] \<and>
   fst (hit_and_get_data unreachable (init None) ''https://example.test/data'' None)
     = Return (JObj []) \<and>
   prints (snd (hit_and_get_data big_number_reply (init None)
      ''https://example.test/data'' None)) =
     [''Error in connecting to URL: https://example.test/data | Error: Exceeds the limit (4300 digits) for integer string conversion''] \<and>
   fst (hit_and_get_data big_number_reply (init None)
      ''https://example.test/data'' None) = Return (JObj [])"
proof -
  let ?url = "''https://example.test/data''"
  let ?rsp = "\<lparr>status = 200, retry_after = NoRetryAfter, location = None, body = ''not-json''\<rparr>"
  let ?rsp' = "\<lparr>status = 200, retry_after = NoRetryAfter, location = None, body = big_number_text\<rparr>"
  have a: "fst (session_get (always 200 ''not-json'') (session (init None)) ?url None
             (headers (init None)) None) = Return ?rsp"
    by code_simp
  have b: "loads (always 200 ''not-json'') (body ?rsp) = Raise JSONDecodeError"
    by code_simp
  have c: "fst (session_get unreachable (session (init None)) ?url None
             (headers (init None)) None) = Raise (ConnectionError ''Connection refused'')"
    by code_simp
  have d: "str_exc unreachable (ConnectionError ''Connection refused'') = ''Connection refused''"
    by (simp add: unreachable_def)
  have a': "fst (session_get big_number_reply (session (init None)) ?url None
             (headers (init None)) None) = Return ?rsp'"
    by (rule session_get_big_number_reply)
  have b': "loads big_number_reply (body ?rsp') = Raise ValueError \<and>
            ValueError \<noteq> JSONDecodeError"
    by (simp add: big_number_reply_def limited_loads_def)
  have d': "str_exc big_number_reply ValueError =
              ''Exceeds the limit (4300 digits) for integer string conversion''"
    by (simp add: big_number_reply_def always_def)
  from one_diagnostic_per_failure [of "always 200 ''not-json''" None ?url None] a b
  have 1: "fst (hit_and_get_data (always 200 ''not-json'') (init None) ?url None)
             = Return (JObj []) \<and>
           prints (snd (hit_and_get_data (always 200 ''not-json'') (init None) ?url None)) =
             [''Failed to decode JSON from response at URL: '' @ ?url]"
    by blast
  from one_diagnostic_per_failure [of unreachable None ?url None] c
  have 2: "fst (hit_and_get_data unreachable (init None) ?url None) = Return (JObj []) \<and>
           prints (snd (hit_and_get_data unreachable (init None) ?url None)) =
             [''Error in connecting to URL: '' @ ?url @ '' | Error: '' @
                str_exc unreachable (ConnectionError ''Connection refused'')]"
    by blast
  from one_diagnostic_per_failure [of big_number_reply None ?url None] a' b'
  have 3: "fst (hit_and_get_data big_number_reply (init None) ?url None)
             = Return (JObj []) \<and>
           prints (snd (hit_and_get_data big_number_reply (init None) ?url None)) =
             [''Error in connecting to URL: '' @ ?url @ '' | Error: '' @
                str_exc big_number_reply ValueError]"
    by blast
  from 1 2 3 d d' show ?thesis by simp
qed

section \<open>\<^verbatim>\<open>get_session\<close>\<close>

text \<open>
  C9.  \<^verbatim>\<open>get_session\<close> takes nothing but the wrapper, always returns, and returns the
  session stored in the wrapper while leaving the wrapper as it was; a second call returns
  the same session.  On a wrapper built by \<^verbatim>\<open>__init__\<close> that session is the one
  configured at construction.
\<close>

theorem get_session_pure:
  "get_session self = (session self, self) \<and>
   fst (get_session (snd (get_session self))) = fst (get_session self) \<and>
   fst (get_session (init hdrs)) =
     (mount new_session ''https://'' (HTTPAdapter retries))\<lparr>timeout := Some 30\<rparr>"
  by (simp add: get_session_def init_def Let_def)

section \<open>What the returned value depends on\<close>





end
